theory Spec2Isabelle
  imports Complex_Main "HOL-Library.Char_ord" "HOL-Library.List_Lexorder"
begin

section \<open>BudgetWise: the store engine of \<^verbatim>\<open>budgetwise/app.js\<close>\<close>

text \<open>
  The development embeds the storage layer and the \<^verbatim>\<open>Store\<close> module of
  \<^verbatim>\<open>app.js\<close>: the normalizers, the transaction operations, import and export,
  the monthly totals and the paginated activity feed.

  Conventions of the embedding.
  \<^item> A record of the store is an Isabelle record. Identifiers (\<^verbatim>\<open>id\<close>,
    \<^verbatim>\<open>category_id\<close>) are strings, as \<^verbatim>\<open>createId\<close> makes them; on the untrusted
    side an identifier is \<open>None\<close> (absent, \<^verbatim>\<open>null\<close>) or a string. Every other field
    read from storage or from an import file is an arbitrary JSON value (\<open>jsval\<close>),
    because the normalizers test and coerce exactly those.
  \<^item> Amounts in the store are integers: every path that writes one applies
    \<^verbatim>\<open>Math.trunc\<close>. Amounts handed to the store are finite numbers (\<open>rat\<close>).
  \<^item> The clock, the random source and \<^verbatim>\<open>Date\<close> belong to the platform; they are
    the fields of a \<open>platform\<close> record that the functions take as a parameter. A
    counter (\<open>tick\<close>) says which reading of the clock comes next.
  \<^item> \<^verbatim>\<open>String.prototype.localeCompare\<close> is taken to be the lexicographic order
    of the code units, the order the store's documentation speaks of.
  \<^item> Mutation is explicit state passing over a \<open>world\<close>: the store's state, the
    content of \<^verbatim>\<open>localStorage\<close>, and the log of notifications sent to the
    subscribers. The month on display (\<^verbatim>\<open>state.month\<close>) is read by none of the
    functions embedded here and is left out of the state.
\<close>

subsection \<open>JSON values and their coercions\<close>

datatype jsval =
    JUndefined
  | JNull
  | JBool bool
  | JNum rat
  | JNaN
  | JInfinity bool
  | JStr string
  | JArr "jsval list"
  | JObj "(string \<times> jsval) list"

text \<open>\<^verbatim>\<open>Boolean(v)\<close>, and the test of \<^verbatim>\<open>v || w\<close> and \<^verbatim>\<open>v && w\<close>.\<close>

fun truthy :: "jsval \<Rightarrow> bool" where
  "truthy JUndefined = False"
| "truthy JNull = False"
| "truthy (JBool b) = b"
| "truthy (JNum q) = (q \<noteq> 0)"
| "truthy JNaN = False"
| "truthy (JInfinity s) = True"
| "truthy (JStr s) = (s \<noteq> [])"
| "truthy (JArr xs) = True"
| "truthy (JObj kvs) = True"

text \<open>\<^verbatim>\<open>Math.trunc\<close> on a finite number.\<close>

definition trunc :: "rat \<Rightarrow> int" where
  "trunc q = (if 0 \<le> q then \<lfloor>q\<rfloor> else \<lceil>q\<rceil>)"

text \<open>\<^verbatim>\<open>Number.isFinite(v) ? Math.max(0, Math.trunc(v)) : 0\<close>\<close>

fun finite_amount :: "jsval \<Rightarrow> int" where
  "finite_amount (JNum q) = max 0 (trunc q)"
| "finite_amount v = 0"

text \<open>\<^verbatim>\<open>typeof v === "string" ? v : d\<close>\<close>

fun string_or :: "jsval \<Rightarrow> string \<Rightarrow> string" where
  "string_or (JStr s) d = s"
| "string_or v d = d"

datatype bucket = Necessities | Leisure | Savings

definition BUCKETS :: "bucket list" where
  "BUCKETS = [Necessities, Leisure, Savings]"

fun bucket_name :: "bucket \<Rightarrow> string" where
  "bucket_name Necessities = ''Necessities''"
| "bucket_name Leisure = ''Leisure''"
| "bucket_name Savings = ''Savings''"

text \<open>\<^verbatim>\<open>BUCKETS.includes(v) ? v : null\<close>: the bucket a value names, if any.\<close>

definition bucket_of :: "jsval \<Rightarrow> bucket option" where
  "bucket_of v = find (\<lambda>b. v = JStr (bucket_name b)) BUCKETS"

text \<open>\<^verbatim>\<open>v || null\<close> on an identifier.\<close>

fun ident_or_null :: "string option \<Rightarrow> string option" where
  "ident_or_null None = None"
| "ident_or_null (Some s) = (if s = [] then None else Some s)"

subsection \<open>The platform\<close>

text \<open>
  A \<^verbatim>\<open>Date\<close> object is what its getters return; \<open>newDate\<close> is the constructor
  \<^verbatim>\<open>new Date(string)\<close>, with \<open>None\<close> for an invalid date.
\<close>

record jsdate =
  getUTCFullYear :: int
  getUTCMonth :: int
  getFullYear :: int
  getMonth :: int

record platform =
  stamp36 :: "nat \<Rightarrow> string"
  random36 :: "nat \<Rightarrow> string"
  nowIso :: "nat \<Rightarrow> string"
  newDate :: "string \<Rightarrow> jsdate option"

text \<open>
  \<^verbatim>\<open>`${Date.now().toString(36)}-${Math.random().toString(36).slice(2, 8)}`\<close>
  at the \<open>n\<close>-th reading of the clock.
\<close>

definition createId :: "platform \<Rightarrow> nat \<Rightarrow> string" where
  "createId p n = stamp36 p n @ ''-'' @ random36 p n"

subsection \<open>The data model\<close>

definition STORAGE_VERSION :: int where
  "STORAGE_VERSION = 1"

datatype tx_type = Income | Expense

record category =
  c_id :: string
  c_name :: string
  c_bucket :: bucket
  archived :: bool

record transaction =
  t_id :: string
  t_type :: tx_type
  amount_cents :: int
  t_description :: string
  t_category_id :: "string option"
  t_bucket :: "bucket option"
  date_iso :: string

record recurring =
  r_id :: string
  r_description :: string
  default_amount_cents :: int
  r_category_id :: "string option"

record budget_rule =
  necessities :: rat
  leisure :: rat
  savings :: rat

record settings =
  currency :: string
  locale_tag :: string
  rule :: budget_rule
  firstDayOfWeek :: int
  showAdvancedCharts :: bool
  hapticFeedback :: bool
  schema_version :: int

definition DEFAULT_RULE :: budget_rule where
  "DEFAULT_RULE = \<lparr>necessities = 50, leisure = 30, savings = 20\<rparr>"

definition DEFAULT_SETTINGS :: settings where
  "DEFAULT_SETTINGS =
     \<lparr>currency = ''USD'', locale_tag = ''en-US'', rule = DEFAULT_RULE, firstDayOfWeek = 1,
      showAdvancedCharts = False, hapticFeedback = False, schema_version = STORAGE_VERSION\<rparr>"

text \<open>The starter categories take the first three identifiers of the session.\<close>

definition DEFAULT_CATEGORIES :: "platform \<Rightarrow> category list" where
  "DEFAULT_CATEGORIES p =
     [\<lparr>c_id = createId p 0, c_name = ''Housing'', c_bucket = Necessities, archived = False\<rparr>,
      \<lparr>c_id = createId p 1, c_name = ''Groceries'', c_bucket = Necessities, archived = False\<rparr>,
      \<lparr>c_id = createId p 2, c_name = ''Fun'', c_bucket = Leisure, archived = False\<rparr>]"

subsection \<open>Untrusted records\<close>

text \<open>
  What \<^verbatim>\<open>JSON.parse\<close> hands to the normalizers. An entry of an array is falsy, a
  truthy primitive, or an object seen through the properties the normalizer reads
  (an absent property is \<open>JUndefined\<close>, an absent identifier \<open>None\<close>). Of the
  settings, the properties that \<^verbatim>\<open>normalizeSettings\<close> copies without a test are
  typed: \<^verbatim>\<open>currency\<close> and \<^verbatim>\<open>locale\<close> are strings and the percentages of
  \<^verbatim>\<open>rule\<close> are finite numbers, each \<open>None\<close> when absent; properties the store never
  reads are left out.
\<close>

datatype 'a raw_entry = Falsy | Primitive | Object 'a

datatype 'a raw_list = NotArray | Array "'a raw_entry list"

record raw_category =
  rc_id :: "string option"
  rc_name :: jsval
  rc_bucket :: jsval
  rc_archived :: jsval

record raw_transaction =
  rt_id :: "string option"
  rt_type :: jsval
  rt_amount_cents :: jsval
  rt_description :: jsval
  rt_category_id :: "string option"
  rt_bucket :: jsval
  rt_date_iso :: jsval

record raw_recurring =
  rr_id :: "string option"
  rr_description :: jsval
  rr_default_amount_cents :: jsval
  rr_category_id :: "string option"

record raw_rule =
  rl_necessities :: "rat option"
  rl_leisure :: "rat option"
  rl_savings :: "rat option"

record raw_settings =
  rs_currency :: "string option"
  rs_locale :: "string option"
  rs_rule :: "raw_rule option"
  rs_firstDayOfWeek :: jsval
  rs_showAdvancedCharts :: jsval
  rs_hapticFeedback :: jsval
  rs_schema_version :: jsval

text \<open>The view of a record of the store when it is read back as an untrusted one.\<close>

definition type_name :: "tx_type \<Rightarrow> string" where
  "type_name ty = (case ty of Income \<Rightarrow> ''income'' | Expense \<Rightarrow> ''expense'')"

definition js_of_bucket :: "bucket option \<Rightarrow> jsval" where
  "js_of_bucket b = (case b of None \<Rightarrow> JNull | Some k \<Rightarrow> JStr (bucket_name k))"

definition raw_of_category :: "category \<Rightarrow> raw_category" where
  "raw_of_category c =
     \<lparr>rc_id = Some (c_id c), rc_name = JStr (c_name c),
      rc_bucket = JStr (bucket_name (c_bucket c)), rc_archived = JBool (archived c)\<rparr>"

definition raw_of_transaction :: "transaction \<Rightarrow> raw_transaction" where
  "raw_of_transaction t =
     \<lparr>rt_id = Some (t_id t), rt_type = JStr (type_name (t_type t)),
      rt_amount_cents = JNum (of_int (amount_cents t)), rt_description = JStr (t_description t),
      rt_category_id = t_category_id t, rt_bucket = js_of_bucket (t_bucket t),
      rt_date_iso = JStr (date_iso t)\<rparr>"

definition raw_of_recurring :: "recurring \<Rightarrow> raw_recurring" where
  "raw_of_recurring r =
     \<lparr>rr_id = Some (r_id r), rr_description = JStr (r_description r),
      rr_default_amount_cents = JNum (of_int (default_amount_cents r)),
      rr_category_id = r_category_id r\<rparr>"

definition raw_of_settings :: "settings \<Rightarrow> raw_settings" where
  "raw_of_settings s =
     \<lparr>rs_currency = Some (currency s), rs_locale = Some (locale_tag s),
      rs_rule = Some \<lparr>rl_necessities = Some (necessities (rule s)),
                      rl_leisure = Some (leisure (rule s)),
                      rl_savings = Some (savings (rule s))\<rparr>,
      rs_firstDayOfWeek = JNum (of_int (firstDayOfWeek s)),
      rs_showAdvancedCharts = JBool (showAdvancedCharts s),
      rs_hapticFeedback = JBool (hapticFeedback s),
      rs_schema_version = JNum (of_int (schema_version s))\<rparr>"

definition raw_of_list :: "('a \<Rightarrow> 'b) \<Rightarrow> 'a list \<Rightarrow> 'b raw_list" where
  "raw_of_list f xs = Array (map (\<lambda>x. Object (f x)) xs)"

subsection \<open>The normalizers\<close>

text \<open>\<^verbatim>\<open>item.id || createId()\<close>: the identifier, and the counter after it.\<close>

fun id_or_create :: "platform \<Rightarrow> nat \<Rightarrow> string option \<Rightarrow> string \<times> nat" where
  "id_or_create p n None = (createId p n, Suc n)"
| "id_or_create p n (Some s) = (if s = [] then (createId p n, Suc n) else (s, n))"

text \<open>\<^verbatim>\<open>typeof tx.date_iso === "string" ? tx.date_iso : new Date().toISOString()\<close>\<close>

fun date_or_now :: "platform \<Rightarrow> nat \<Rightarrow> jsval \<Rightarrow> string \<times> nat" where
  "date_or_now p n (JStr s) = (s, n)"
| "date_or_now p n v = (nowIso p n, Suc n)"

text \<open>\<^verbatim>\<open>list.filter((item) => item && typeof item === "object")\<close>\<close>

fun objects :: "'a raw_entry list \<Rightarrow> 'a list" where
  "objects [] = []"
| "objects (Object x # es) = x # objects es"
| "objects (e # es) = objects es"

text \<open>\<^verbatim>\<open>Array.prototype.map\<close> with a callback that reads the clock.\<close>

fun map_tick :: "(nat \<Rightarrow> 'a \<Rightarrow> 'b \<times> nat) \<Rightarrow> nat \<Rightarrow> 'a list \<Rightarrow> 'b list \<times> nat" where
  "map_tick f n [] = ([], n)"
| "map_tick f n (x # xs) =
     (case f n x of (y, n') \<Rightarrow> (case map_tick f n' xs of (ys, n'') \<Rightarrow> (y # ys, n'')))"

definition normalizeSettings :: "raw_settings option \<Rightarrow> settings" where
  "normalizeSettings raw =
     (let ru = (case raw of None \<Rightarrow> None | Some r \<Rightarrow> rs_rule r);
          pick = (\<lambda>f d. case raw of None \<Rightarrow> d | Some r \<Rightarrow> (case f r of None \<Rightarrow> d | Some v \<Rightarrow> v));
          prop = (\<lambda>f d. case raw of None \<Rightarrow> d
                          | Some r \<Rightarrow> (case f r of JUndefined \<Rightarrow> d | v \<Rightarrow> v));
          pct = (\<lambda>f d. case ru of None \<Rightarrow> d | Some r \<Rightarrow> (case f r of None \<Rightarrow> d | Some v \<Rightarrow> v))
      in \<lparr>currency = pick rs_currency (currency DEFAULT_SETTINGS),
          locale_tag = pick rs_locale (locale_tag DEFAULT_SETTINGS),
          rule = \<lparr>necessities = pct rl_necessities (necessities DEFAULT_RULE),
                  leisure = pct rl_leisure (leisure DEFAULT_RULE),
                  savings = pct rl_savings (savings DEFAULT_RULE)\<rparr>,
          firstDayOfWeek =
            (if prop rs_firstDayOfWeek (JNum (of_int (firstDayOfWeek DEFAULT_SETTINGS))) = JNum 0
             then 0 else 1),
          showAdvancedCharts =
            truthy (prop rs_showAdvancedCharts (JBool (showAdvancedCharts DEFAULT_SETTINGS))),
          hapticFeedback =
            truthy (prop rs_hapticFeedback (JBool (hapticFeedback DEFAULT_SETTINGS))),
          schema_version = STORAGE_VERSION\<rparr>)"

definition normalizeCategory :: "platform \<Rightarrow> nat \<Rightarrow> raw_category \<Rightarrow> category \<times> nat" where
  "normalizeCategory p n item =
     (case id_or_create p n (rc_id item) of (i, n') \<Rightarrow>
        (\<lparr>c_id = i,
          c_name = string_or (rc_name item) ''Untitled'',
          c_bucket = (case bucket_of (rc_bucket item) of Some b \<Rightarrow> b | None \<Rightarrow> Necessities),
          archived = truthy (rc_archived item)\<rparr>, n'))"

fun normalizeCategories ::
  "platform \<Rightarrow> nat \<Rightarrow> raw_category raw_list \<Rightarrow> category list \<times> nat" where
  "normalizeCategories p n NotArray = ([], n)"
| "normalizeCategories p n (Array es) = map_tick (normalizeCategory p) n (objects es)"

definition normalizeTransaction ::
  "platform \<Rightarrow> nat \<Rightarrow> raw_transaction \<Rightarrow> transaction \<times> nat" where
  "normalizeTransaction p n tx =
     (case id_or_create p n (rt_id tx) of (i, n') \<Rightarrow>
      case date_or_now p n' (rt_date_iso tx) of (d, n'') \<Rightarrow>
        (\<lparr>t_id = i,
          t_type = (if rt_type tx = JStr ''income'' then Income else Expense),
          amount_cents = finite_amount (rt_amount_cents tx),
          t_description = string_or (rt_description tx) '''',
          t_category_id = ident_or_null (rt_category_id tx),
          t_bucket = bucket_of (rt_bucket tx),
          date_iso = d\<rparr>, n''))"

fun normalizeTransactions ::
  "platform \<Rightarrow> nat \<Rightarrow> raw_transaction raw_list \<Rightarrow> transaction list \<times> nat" where
  "normalizeTransactions p n NotArray = ([], n)"
| "normalizeTransactions p n (Array es) =
     (case map_tick (normalizeTransaction p) n (objects es) of
        (txs, n') \<Rightarrow> (filter (\<lambda>tx. amount_cents tx > 0) txs, n'))"

definition normalizeRecurringItem ::
  "platform \<Rightarrow> nat \<Rightarrow> raw_recurring \<Rightarrow> recurring \<times> nat" where
  "normalizeRecurringItem p n item =
     (case id_or_create p n (rr_id item) of (i, n') \<Rightarrow>
        (\<lparr>r_id = i,
          r_description = string_or (rr_description item) '''',
          default_amount_cents = finite_amount (rr_default_amount_cents item),
          r_category_id = ident_or_null (rr_category_id item)\<rparr>, n'))"

fun normalizeRecurring ::
  "platform \<Rightarrow> nat \<Rightarrow> raw_recurring raw_list \<Rightarrow> recurring list \<times> nat" where
  "normalizeRecurring p n NotArray = ([], n)"
| "normalizeRecurring p n (Array es) = map_tick (normalizeRecurringItem p) n (objects es)"

subsection \<open>Ordering of the transactions\<close>

definition localeCompare :: "string \<Rightarrow> string \<Rightarrow> int" where
  "localeCompare s t = (if s < t then - 1 else if s = t then 0 else 1)"

definition compareTransactionsDesc :: "transaction \<Rightarrow> transaction \<Rightarrow> int" where
  "compareTransactionsDesc a b =
     (if date_iso a \<noteq> date_iso b then localeCompare (date_iso b) (date_iso a)
      else localeCompare (t_id b) (t_id a))"

text \<open>
  \<^verbatim>\<open>Array.prototype.sort(compare)\<close>: a stable sort; among the elements that
  \<open>compare\<close> holds equal, the earlier one stays first.
\<close>

fun insert_by :: "('a \<Rightarrow> 'a \<Rightarrow> int) \<Rightarrow> 'a \<Rightarrow> 'a list \<Rightarrow> 'a list" where
  "insert_by cmp x [] = [x]"
| "insert_by cmp x (y # ys) = (if cmp x y \<le> 0 then x # y # ys else y # insert_by cmp x ys)"

definition sort_by :: "('a \<Rightarrow> 'a \<Rightarrow> int) \<Rightarrow> 'a list \<Rightarrow> 'a list" where
  "sort_by cmp xs = foldr (insert_by cmp) xs []"

subsection \<open>The storage service\<close>

datatype 'a stored = Missing | Corrupt | Parsed 'a

record local_storage =
  BW_V1_SETTINGS :: "raw_settings option stored"
  BW_V1_CATEGORIES :: "raw_category raw_list stored"
  BW_V1_TRANSACTIONS :: "raw_transaction raw_list stored"
  BW_V1_RECURRING :: "raw_recurring raw_list stored"

record storage_service =
  items :: local_storage
  corruptedKeys :: "string list"

record snapshot =
  snap_settings :: "raw_settings option"
  snap_categories :: "raw_category raw_list"
  snap_transactions :: "raw_transaction raw_list"
  snap_recurring :: "raw_recurring raw_list"

datatype error = SCHEMA_MISMATCH | TypeError

text \<open>
  \<^verbatim>\<open>read(key, fallback)\<close>: the parsed value, or the fallback when the key is absent
  or does not parse; in the second case the key is recorded as corrupted.
\<close>

fun read :: "string \<Rightarrow> 'a stored \<Rightarrow> 'a \<Rightarrow> string list \<Rightarrow> 'a \<times> string list" where
  "read key Missing fallback ck = (fallback, ck)"
| "read key Corrupt fallback ck = (fallback, List.insert key ck)"
| "read key (Parsed v) fallback ck = (v, ck)"

text \<open>
  \<^verbatim>\<open>!storedSettings || storedSettings.schema_version !== STORAGE_VERSION\<close>
\<close>

fun settings_outdated :: "raw_settings option \<Rightarrow> bool" where
  "settings_outdated None = True"
| "settings_outdated (Some r) = (rs_schema_version r \<noteq> JNum (of_int STORAGE_VERSION))"

fun isArray :: "'a raw_list \<Rightarrow> bool" where
  "isArray NotArray = False"
| "isArray (Array es) = True"

definition ensureDefaults :: "platform \<Rightarrow> storage_service \<Rightarrow> storage_service" where
  "ensureDefaults p sv =
     (let ls = items sv; ck = corruptedKeys sv;
          (storedSettings, ck) = read ''BW_V1_SETTINGS'' (BW_V1_SETTINGS ls) None ck;
          ls = (if settings_outdated storedSettings
                then ls\<lparr>BW_V1_SETTINGS := Parsed (Some (raw_of_settings DEFAULT_SETTINGS))\<rparr>
                else ls);
          (cats, ck) = read ''BW_V1_CATEGORIES'' (BW_V1_CATEGORIES ls) NotArray ck;
          ls = (if \<not> isArray cats
                then ls\<lparr>BW_V1_CATEGORIES :=
                         Parsed (raw_of_list raw_of_category (DEFAULT_CATEGORIES p))\<rparr>
                else ls);
          (txs, ck) = read ''BW_V1_TRANSACTIONS'' (BW_V1_TRANSACTIONS ls) NotArray ck;
          ls = (if \<not> isArray txs then ls\<lparr>BW_V1_TRANSACTIONS := Parsed (Array [])\<rparr> else ls);
          (recs, ck) = read ''BW_V1_RECURRING'' (BW_V1_RECURRING ls) NotArray ck;
          ls = (if \<not> isArray recs then ls\<lparr>BW_V1_RECURRING := Parsed (Array [])\<rparr> else ls)
      in \<lparr>items = ls, corruptedKeys = ck\<rparr>)"

definition storage_init :: "platform \<Rightarrow> storage_service \<Rightarrow> storage_service" where
  "storage_init p sv = ensureDefaults p (sv\<lparr>corruptedKeys := []\<rparr>)"

text \<open>
  \<^verbatim>\<open>list.filter(Boolean)\<close>; on a value that is not an array the call raises a
  \<^verbatim>\<open>TypeError\<close>.
\<close>

fun filter_Boolean :: "'a raw_list \<Rightarrow> error + 'a raw_list" where
  "filter_Boolean NotArray = Inl TypeError"
| "filter_Boolean (Array es) = Inr (Array (filter (\<lambda>e. e \<noteq> Falsy) es))"

definition getSnapshot :: "storage_service \<Rightarrow> (error + snapshot) \<times> storage_service" where
  "getSnapshot sv =
     (let ls = items sv; ck = corruptedKeys sv;
          (s, ck) = read ''BW_V1_SETTINGS'' (BW_V1_SETTINGS ls)
                      (Some (raw_of_settings DEFAULT_SETTINGS)) ck;
          (c, ck1) = read ''BW_V1_CATEGORIES'' (BW_V1_CATEGORIES ls) (Array []) ck
      in case filter_Boolean c of
           Inl e \<Rightarrow> (Inl e, sv\<lparr>corruptedKeys := ck1\<rparr>)
         | Inr c' \<Rightarrow>
             (let (t, ck2) = read ''BW_V1_TRANSACTIONS'' (BW_V1_TRANSACTIONS ls) (Array []) ck1
              in case filter_Boolean t of
                   Inl e \<Rightarrow> (Inl e, sv\<lparr>corruptedKeys := ck2\<rparr>)
                 | Inr t' \<Rightarrow>
                     (let (r, ck3) = read ''BW_V1_RECURRING'' (BW_V1_RECURRING ls) (Array []) ck2
                      in case filter_Boolean r of
                           Inl e \<Rightarrow> (Inl e, sv\<lparr>corruptedKeys := ck3\<rparr>)
                         | Inr r' \<Rightarrow>
                             (Inr \<lparr>snap_settings = s, snap_categories = c',
                                   snap_transactions = t', snap_recurring = r'\<rparr>,
                              sv\<lparr>corruptedKeys := ck3\<rparr>))))"

definition storage_reset ::
  "platform \<Rightarrow> storage_service \<Rightarrow> (error + snapshot) \<times> storage_service" where
  "storage_reset p sv =
     getSnapshot (storage_init p
       (sv\<lparr>items := \<lparr>BW_V1_SETTINGS = Missing, BW_V1_CATEGORIES = Missing,
                      BW_V1_TRANSACTIONS = Missing, BW_V1_RECURRING = Missing\<rparr>\<rparr>))"

subsection \<open>The store\<close>

record corruption =
  hasCorruption :: bool
  keys :: "string list"

record state =
  settings :: settings
  categories :: "category list"
  transactions :: "transaction list"
  recurring :: "recurring list"
  corruption :: corruption

text \<open>The change descriptors passed to the subscribers.\<close>

datatype change =
    Init
  | TransactionsAdd transaction
  | TransactionsUpdate "transaction option"
  | TransactionsDelete "transaction option"
  | DataImport string
  | AppReset

record world =
  store :: state
  service :: storage_service
  notified :: "change list"
  tick :: nat

definition persist :: "world \<Rightarrow> world" where
  "persist w =
     w\<lparr>service := (service w)\<lparr>items :=
          \<lparr>BW_V1_SETTINGS = Parsed (Some (raw_of_settings (settings (store w)))),
           BW_V1_CATEGORIES = Parsed (raw_of_list raw_of_category (categories (store w))),
           BW_V1_TRANSACTIONS = Parsed (raw_of_list raw_of_transaction (transactions (store w))),
           BW_V1_RECURRING = Parsed (raw_of_list raw_of_recurring (recurring (store w)))\<rparr>\<rparr>\<rparr>"

definition notify :: "change \<Rightarrow> world \<Rightarrow> world" where
  "notify detail w = w\<lparr>notified := notified w @ [detail]\<rparr>"

text \<open>
  The four normalizers run on a snapshot, in the order of the source; the result is
  the new collections and the counter.
\<close>

definition normalize_snapshot ::
  "platform \<Rightarrow> nat \<Rightarrow> snapshot \<Rightarrow> state \<Rightarrow> state \<times> nat" where
  "normalize_snapshot p n sn s =
     (case normalizeCategories p n (snap_categories sn) of (cs, n1) \<Rightarrow>
      case normalizeTransactions p n1 (snap_transactions sn) of (ts, n2) \<Rightarrow>
      case normalizeRecurring p n2 (snap_recurring sn) of (rs, n3) \<Rightarrow>
        (s\<lparr>settings := normalizeSettings (snap_settings sn), categories := cs,
           transactions := ts, recurring := rs\<rparr>, n3))"

definition loadFromStorage :: "platform \<Rightarrow> world \<Rightarrow> error option \<times> world" where
  "loadFromStorage p w =
     (case getSnapshot (service w) of
        (Inl e, sv) \<Rightarrow> (Some e, w\<lparr>service := sv\<rparr>)
      | (Inr sn, sv) \<Rightarrow>
          (case normalize_snapshot p (tick w) sn (store w) of (s, n) \<Rightarrow>
             (None, w\<lparr>store := s\<lparr>corruption :=
                            \<lparr>hasCorruption = (corruptedKeys sv \<noteq> []), keys = corruptedKeys sv\<rparr>\<rparr>,
                       service := sv, tick := n\<rparr>)))"

definition init :: "platform \<Rightarrow> world \<Rightarrow> error option \<times> world" where
  "init p w =
     (case loadFromStorage p (w\<lparr>service := storage_init p (service w)\<rparr>) of
        (Some e, w') \<Rightarrow> (Some e, w')
      | (None, w') \<Rightarrow> (None, notify Init w'))"

definition reset :: "platform \<Rightarrow> world \<Rightarrow> error option \<times> world" where
  "reset p w =
     (case storage_reset p (service w) of
        (Inl e, sv) \<Rightarrow> (Some e, w\<lparr>service := sv\<rparr>)
      | (Inr sn, sv) \<Rightarrow>
          (case normalize_snapshot p (tick w) sn (store w) of (s, n) \<Rightarrow>
             (None, notify AppReset (w\<lparr>store := s, service := sv, tick := n\<rparr>))))"

subsection \<open>Transactions\<close>

text \<open>
  The argument of \<^verbatim>\<open>addTransaction\<close>; an optional property is \<open>None\<close> when it is
  \<^verbatim>\<open>undefined\<close>.
\<close>

record draft =
  d_type :: jsval
  d_amount_cents :: rat
  d_description :: "string option"
  d_category_id :: "string option"
  d_bucket :: jsval
  d_date_iso :: "string option"

text \<open>
  The second argument of \<^verbatim>\<open>updateTransaction\<close>: for each property, \<open>None\<close> when
  the object does not have it.
\<close>

record updates =
  u_type :: "tx_type option"
  u_amount_cents :: "rat option"
  u_description :: "string option"
  u_category_id :: "string option option"
  u_bucket :: "jsval option"
  u_date_iso :: "jsval option"

text \<open>
  \<^verbatim>\<open>getCategoryBucket(categoryId)\<close>; the argument is \<open>None\<close> for \<^verbatim>\<open>null\<close>, which is
  the identifier of no category.
\<close>

definition getCategoryBucket :: "category list \<Rightarrow> string option \<Rightarrow> bucket option" where
  "getCategoryBucket cats categoryId =
     (case categoryId of
        None \<Rightarrow> None
      | Some i \<Rightarrow> (case find (\<lambda>cat. c_id cat = i) cats of
                     None \<Rightarrow> None
                   | Some cat \<Rightarrow> Some (c_bucket cat)))"

definition buildTransaction ::
  "platform \<Rightarrow> category list \<Rightarrow> nat \<Rightarrow> draft \<Rightarrow> transaction \<times> nat" where
  "buildTransaction p cats n d =
     (let (date, n1) = (case d_date_iso d of None \<Rightarrow> (nowIso p n, Suc n) | Some s \<Rightarrow> (s, n));
          normalizedType = (if d_type d = JStr ''income'' then Income else Expense);
          amount = max 0 (trunc (d_amount_cents d));
          resolvedBucket =
            (if normalizedType = Expense \<and> bucket_of (d_bucket d) \<noteq> None
             then bucket_of (d_bucket d)
             else if normalizedType = Expense \<and> ident_or_null (d_category_id d) \<noteq> None
             then getCategoryBucket cats (d_category_id d)
             else None)
      in (\<lparr>t_id = createId p n1,
           t_type = normalizedType,
           amount_cents = amount,
           t_description = (case d_description d of None \<Rightarrow> [] | Some s \<Rightarrow> s),
           t_category_id = (if normalizedType = Expense then d_category_id d else None),
           t_bucket = (if normalizedType = Expense then resolvedBucket else None),
           date_iso = date\<rparr>, Suc n1))"

definition addTransaction :: "platform \<Rightarrow> draft \<Rightarrow> world \<Rightarrow> transaction \<times> world" where
  "addTransaction p payload w =
     (case buildTransaction p (categories (store w)) (tick w) payload of
        (transaction, n) \<Rightarrow>
          (transaction,
           notify (TransactionsAdd transaction)
             (persist (w\<lparr>store := (store w)\<lparr>transactions :=
                           sort_by compareTransactionsDesc
                             (transactions (store w) @ [transaction])\<rparr>,
                        tick := n\<rparr>))))"

text \<open>
  The callback of the \<^verbatim>\<open>map\<close> in \<^verbatim>\<open>updateTransaction\<close>, on a record with the
  identifier looked for.
\<close>

definition merge_updates ::
  "platform \<Rightarrow> category list \<Rightarrow> updates \<Rightarrow> nat \<Rightarrow> transaction \<Rightarrow> transaction \<times> nat" where
  "merge_updates p cats u n tx =
     (let m_type = (case u_type u of None \<Rightarrow> t_type tx | Some ty \<Rightarrow> ty);
          m_amount = (case u_amount_cents u of None \<Rightarrow> of_int (amount_cents tx) | Some a \<Rightarrow> a);
          m_description = (case u_description u of None \<Rightarrow> t_description tx | Some s \<Rightarrow> s);
          m_category_id = (case u_category_id u of None \<Rightarrow> t_category_id tx | Some c \<Rightarrow> c);
          m_bucket = (case u_bucket u of None \<Rightarrow> js_of_bucket (t_bucket tx) | Some b \<Rightarrow> b);
          m_date = (case u_date_iso u of None \<Rightarrow> JStr (date_iso tx) | Some v \<Rightarrow> v);
          (date, n') = date_or_now p n m_date
      in (\<lparr>t_id = t_id tx,
           t_type = m_type,
           amount_cents = max 0 (trunc m_amount),
           t_description = m_description,
           t_category_id = (if m_type = Expense then m_category_id else None),
           t_bucket = (if m_type = Expense
                       then (if bucket_of m_bucket \<noteq> None then bucket_of m_bucket
                             else getCategoryBucket cats m_category_id)
                       else None),
           date_iso = date\<rparr>, n'))"

text \<open>
  The \<^verbatim>\<open>map\<close> of \<^verbatim>\<open>updateTransaction\<close>: the new list, the last record merged
  (\<^verbatim>\<open>target\<close>) and the counter.
\<close>

fun update_each ::
  "platform \<Rightarrow> category list \<Rightarrow> string \<Rightarrow> updates \<Rightarrow> transaction option \<Rightarrow> nat \<Rightarrow>
   transaction list \<Rightarrow> transaction list \<times> transaction option \<times> nat" where
  "update_each p cats i u target n [] = ([], target, n)"
| "update_each p cats i u target n (tx # txs) =
     (if t_id tx \<noteq> i
      then (case update_each p cats i u target n txs of
              (txs', target', n') \<Rightarrow> (tx # txs', target', n'))
      else (case merge_updates p cats u n tx of
              (merged, n1) \<Rightarrow>
                (case update_each p cats i u (Some merged) n1 txs of
                   (txs', target', n') \<Rightarrow> (merged # txs', target', n'))))"

definition updateTransaction ::
  "platform \<Rightarrow> string \<Rightarrow> updates \<Rightarrow> world \<Rightarrow> transaction option \<times> world" where
  "updateTransaction p i u w =
     (case update_each p (categories (store w)) i u None (tick w) (transactions (store w)) of
        (txs, target, n) \<Rightarrow>
          (target,
           notify (TransactionsUpdate target)
             (persist (w\<lparr>store := (store w)\<lparr>transactions :=
                           sort_by compareTransactionsDesc txs\<rparr>,
                        tick := n\<rparr>))))"

definition deleteTransaction :: "string \<Rightarrow> world \<Rightarrow> transaction option \<times> world" where
  "deleteTransaction i w =
     (let removed = find (\<lambda>tx. t_id tx = i) (transactions (store w))
      in (removed,
          notify (TransactionsDelete removed)
            (persist (w\<lparr>store := (store w)\<lparr>transactions :=
                          filter (\<lambda>tx. t_id tx \<noteq> i) (transactions (store w))\<rparr>\<rparr>))))"

subsection \<open>Export and import\<close>

text \<open>
  An import payload, seen through the properties \<^verbatim>\<open>importData\<close> reads. The argument
  itself is \<open>None\<close> when it is falsy.
\<close>

record raw_payload =
  p_schema_version :: jsval
  p_settings :: "raw_settings option"
  p_categories :: "raw_category raw_list"
  p_recurring :: "raw_recurring raw_list"
  p_transactions :: "raw_transaction raw_list"

definition exportData :: "world \<Rightarrow> raw_payload" where
  "exportData w =
     \<lparr>p_schema_version = JNum (of_int STORAGE_VERSION),
      p_settings = Some (raw_of_settings (settings (store w))),
      p_categories = raw_of_list raw_of_category (categories (store w)),
      p_recurring = raw_of_list raw_of_recurring (recurring (store w)),
      p_transactions = raw_of_list raw_of_transaction (transactions (store w))\<rparr>"

text \<open>
  \<^verbatim>\<open>dedupeById\<close>: the filter keeps an item when its identifier is truthy and has
  not been seen.
\<close>

fun dedupe_from :: "('a \<Rightarrow> string) \<Rightarrow> string set \<Rightarrow> 'a list \<Rightarrow> 'a list" where
  "dedupe_from ident seen [] = []"
| "dedupe_from ident seen (item # rest) =
     (if ident item = [] then dedupe_from ident seen rest
      else if ident item \<in> seen then dedupe_from ident seen rest
      else item # dedupe_from ident (insert (ident item) seen) rest)"

definition dedupeById :: "('a \<Rightarrow> string) \<Rightarrow> 'a list \<Rightarrow> 'a list" where
  "dedupeById ident list = dedupe_from ident {} list"

text \<open>\<^verbatim>\<open>!payload || payload.schema_version !== STORAGE_VERSION\<close>\<close>

fun schema_mismatch :: "raw_payload option \<Rightarrow> bool" where
  "schema_mismatch None = True"
| "schema_mismatch (Some payload) = (p_schema_version payload \<noteq> JNum (of_int STORAGE_VERSION))"

definition importData ::
  "platform \<Rightarrow> raw_payload option \<Rightarrow> string \<Rightarrow> world \<Rightarrow> error option \<times> world" where
  "importData p payload strategy w =
     (case payload of
        None \<Rightarrow> (Some SCHEMA_MISMATCH, w)
      | Some pl \<Rightarrow>
          if schema_mismatch payload then (Some SCHEMA_MISMATCH, w)
          else
            (case normalizeCategories p (tick w) (p_categories pl) of (i_categories, n1) \<Rightarrow>
             case normalizeRecurring p n1 (p_recurring pl) of (i_recurring, n2) \<Rightarrow>
             case normalizeTransactions p n2 (p_transactions pl) of (i_transactions, n3) \<Rightarrow>
               (let i_settings = normalizeSettings (p_settings pl);
                    s = store w;
                    s' =
                      (if strategy = ''merge''
                       then
                         (let existingCategoryIds = set (map c_id (categories s));
                              mergedCategories =
                                categories s @
                                filter (\<lambda>cat. c_id cat \<notin> existingCategoryIds) i_categories;
                              mergedTransactions = dedupeById t_id (transactions s @ i_transactions);
                              mergedRecurring = dedupeById r_id (recurring s @ i_recurring)
                          in s\<lparr>settings := i_settings,
                               categories := mergedCategories,
                               transactions := sort_by compareTransactionsDesc mergedTransactions,
                               recurring := mergedRecurring\<rparr>)
                       else
                         s\<lparr>settings := i_settings,
                           categories := i_categories,
                           transactions := sort_by compareTransactionsDesc i_transactions,
                           recurring := i_recurring\<rparr>)
                in (None, notify (DataImport strategy) (persist (w\<lparr>store := s', tick := n3\<rparr>))))))"

subsection \<open>The activity feed\<close>

text \<open>\<^verbatim>\<open>String.prototype.split\<close> on a one-character separator.\<close>

fun split :: "char \<Rightarrow> string \<Rightarrow> string list" where
  "split sep [] = [[]]"
| "split sep (c # cs) =
     (if c = sep then [] # split sep cs
      else (case split sep cs of [] \<Rightarrow> [[c]] | part # parts \<Rightarrow> (c # part) # parts))"







subsection \<open>Double-precision arithmetic\<close>

text \<open>
  A JavaScript number is a double. Where the store only adds, subtracts and
  truncates integers the result is exact (below \<open>2^53\<close>) and the model computes in
  \<open>int\<close>. The budget is the one place where it divides and multiplies; there the
  result of each operation is the exact result rounded to the nearest double, ties
  to the even significand. \<open>double\<close> is this rounding, for magnitudes in the normal
  range.
\<close>

text \<open>The position of the leading bit of a positive integer.\<close>

function log2_floor :: "int \<Rightarrow> int" where
  "log2_floor n = (if n < 2 then 0 else 1 + log2_floor (n div 2))"
  by pat_completeness auto
termination
  by (relation "measure nat") auto

declare log2_floor.simps [simp del]

definition pow2 :: "int \<Rightarrow> rat" where
  "pow2 e = (if 0 \<le> e then 2 ^ nat e else 1 / 2 ^ nat (- e))"

text \<open>The exponent \<open>e\<close> of a positive number: \<open>2^e \<le> x < 2^(e+1)\<close>.\<close>

definition exponent :: "rat \<Rightarrow> int" where
  "exponent x =
     (case quotient_of x of (a, b) \<Rightarrow>
        (let d = log2_floor a - log2_floor b
         in if pow2 d \<le> x then d else d - 1))"

definition round_half_even :: "rat \<Rightarrow> int" where
  "round_half_even q =
     (let f = \<lfloor>q\<rfloor>; r = q - of_int f
      in if r < 1 / 2 then f else if 1 / 2 < r then f + 1 else if even f then f else f + 1)"

definition double :: "rat \<Rightarrow> rat" where
  "double x =
     (if x = 0 then 0
      else (let ulp = pow2 (exponent \<bar>x\<bar> - 52)
            in sgn x * of_int (round_half_even (\<bar>x\<bar> / ulp)) * ulp))"

text \<open>\<^verbatim>\<open>Math.round\<close>: the nearest integer, a tie going up.\<close>

definition Math_round :: "rat \<Rightarrow> int" where
  "Math_round x = \<lfloor>x + 1 / 2\<rfloor>"

subsection \<open>Monthly totals\<close>

definition isSameMonth :: "platform \<Rightarrow> string \<Rightarrow> int \<Rightarrow> int \<Rightarrow> bool" where
  "isSameMonth p dateIso year monthIndex =
     (case newDate p dateIso of
        None \<Rightarrow> False
      | Some date \<Rightarrow> getUTCFullYear date = year \<and> getUTCMonth date = monthIndex)"


record bucket_totals =
  spent_cents :: int
  budget_cents :: int
  remaining_cents :: int

text \<open>The key \<open>None\<close> of \<open>buckets\<close> is the bucket \<^verbatim>\<open>Uncategorized\<close>.\<close>

record totals =
  income_cents :: int
  expense_cents :: int
  buckets :: "bucket option \<Rightarrow> bucket_totals"

record tally =
  acc_income :: int
  acc_expense :: int
  acc_spent :: "bucket option \<Rightarrow> int"

text \<open>The first loop of \<^verbatim>\<open>getMonthlyTotals\<close>.\<close>

fun tally_month :: "platform \<Rightarrow> int \<Rightarrow> int \<Rightarrow> transaction list \<Rightarrow> tally \<Rightarrow> tally" where
  "tally_month p year monthIndex [] acc = acc"
| "tally_month p year monthIndex (tx # txs) acc =
     tally_month p year monthIndex txs
       (if \<not> isSameMonth p (date_iso tx) year monthIndex then acc
        else if t_type tx = Income
        then acc\<lparr>acc_income := acc_income acc + amount_cents tx\<rparr>
        else acc\<lparr>acc_expense := acc_expense acc + amount_cents tx,
                 acc_spent := (acc_spent acc)
                   (t_bucket tx := acc_spent acc (t_bucket tx) + amount_cents tx)\<rparr>)"

text \<open>\<^verbatim>\<open>Math.round(totals.income_cents * (percentage / 100))\<close>\<close>

definition budget_of :: "int \<Rightarrow> rat \<Rightarrow> int" where
  "budget_of income percentage = Math_round (double (of_int income * double (percentage / 100)))"

definition rule_percentage :: "budget_rule \<Rightarrow> bucket \<Rightarrow> rat" where
  "rule_percentage r b =
     (case b of Necessities \<Rightarrow> necessities r | Leisure \<Rightarrow> leisure r | Savings \<Rightarrow> savings r)"

definition getMonthlyTotals :: "platform \<Rightarrow> int \<Rightarrow> int \<Rightarrow> world \<Rightarrow> totals" where
  "getMonthlyTotals p year monthIndex w =
     (let acc = tally_month p year monthIndex (transactions (store w))
                  \<lparr>acc_income = 0, acc_expense = 0, acc_spent = (\<lambda>b. 0)\<rparr>;
          budget = (\<lambda>b. case b of
                      None \<Rightarrow> 0
                    | Some k \<Rightarrow> budget_of (acc_income acc)
                                 (rule_percentage (rule (settings (store w))) k))
      in \<lparr>income_cents = acc_income acc,
          expense_cents = acc_expense acc,
          buckets = (\<lambda>b. \<lparr>spent_cents = acc_spent acc b,
                          budget_cents = budget b,
                          remaining_cents =
                            (if budget b \<noteq> 0 then budget b - acc_spent acc b
                             else - acc_spent acc b)\<rparr>)\<rparr>)"

subsection \<open>Sequences of operations\<close>

text \<open>The state of the module before \<^verbatim>\<open>Store.init()\<close>, over a given storage.\<close>

definition initial_state :: state where
  "initial_state =
     \<lparr>settings = DEFAULT_SETTINGS, categories = [], transactions = [], recurring = [],
      corruption = \<lparr>hasCorruption = False, keys = []\<rparr>\<rparr>"

definition initial_world :: "local_storage \<Rightarrow> world" where
  "initial_world ls =
     \<lparr>store = initial_state, service = \<lparr>items = ls, corruptedKeys = []\<rparr>,
      notified = [], tick = 3\<rparr>"

definition empty_storage :: local_storage where
  "empty_storage =
     \<lparr>BW_V1_SETTINGS = Missing, BW_V1_CATEGORIES = Missing,
      BW_V1_TRANSACTIONS = Missing, BW_V1_RECURRING = Missing\<rparr>"

text \<open>
  The operations of the store that write the transactions, apart from the load at
  start-up. A failed call leaves the world as the call left it.
\<close>

datatype operation =
    AddTransaction draft
  | UpdateTransaction string updates
  | DeleteTransaction string
  | ImportData "raw_payload option" string
  | Reset

fun apply_operation :: "platform \<Rightarrow> operation \<Rightarrow> world \<Rightarrow> world" where
  "apply_operation p (AddTransaction d) w = snd (addTransaction p d w)"
| "apply_operation p (UpdateTransaction i u) w = snd (updateTransaction p i u w)"
| "apply_operation p (DeleteTransaction i) w = snd (deleteTransaction i w)"
| "apply_operation p (ImportData payload strategy) w = snd (importData p payload strategy w)"
| "apply_operation p Reset w = snd (reset p w)"

definition run :: "platform \<Rightarrow> operation list \<Rightarrow> world \<Rightarrow> world" where
  "run p ops w = foldl (\<lambda>w' operation. apply_operation p operation w') w ops"

subsection \<open>The order of the collection\<close>

text \<open>
  The relation between a record and a later one that the sort establishes, and the
  strict relation of the specification.
\<close>

definition precedes :: "transaction \<Rightarrow> transaction \<Rightarrow> bool" where
  "precedes a b \<longleftrightarrow>
     date_iso b < date_iso a \<or> (date_iso a = date_iso b \<and> t_id b \<le> t_id a)"




subsection \<open>Sample inputs\<close>

text \<open>
  A platform for the examples: its clock writes the timestamps as
  \<^verbatim>\<open>toISOString\<close> does, and its \<^verbatim>\<open>Date\<close> reads the year and the month of such
  a timestamp. The local time zone of \<open>utc_platform\<close> is UTC.
\<close>

definition digit_value :: "char \<Rightarrow> int option" where
  "digit_value c =
     (if CHR ''0'' \<le> c \<and> c \<le> CHR ''9'' then Some (int (of_char c) - 48) else None)"

fun number_of :: "int \<Rightarrow> string \<Rightarrow> int option" where
  "number_of acc [] = Some acc"
| "number_of acc (c # cs) =
     (case digit_value c of None \<Rightarrow> None | Some d \<Rightarrow> number_of (10 * acc + d) cs)"

definition utc_date :: "string \<Rightarrow> jsdate option" where
  "utc_date s =
     (if length s = 24 \<and> s ! 4 = CHR ''-'' \<and> s ! 7 = CHR ''-'' \<and> s ! 10 = CHR ''T''
         \<and> s ! 23 = CHR ''Z''
      then (case (number_of 0 (take 4 s), number_of 0 (take 2 (drop 5 s))) of
              (Some y, Some m) \<Rightarrow>
                if 1 \<le> m \<and> m \<le> 12
                then Some \<lparr>getUTCFullYear = y, getUTCMonth = m - 1,
                           getFullYear = y, getMonth = m - 1\<rparr>
                else None
            | _ \<Rightarrow> None)
      else None)"

definition utc_platform :: platform where
  "utc_platform =
     \<lparr>stamp36 = (\<lambda>n. ''lu'' @ replicate n CHR ''z''),
      random36 = (\<lambda>n. ''k3x9qa''),
      nowIso = (\<lambda>n. ''2024-03-15T12:00:00.000Z''),
      newDate = utc_date\<rparr>"


definition sample_draft :: draft where
  "sample_draft =
     \<lparr>d_type = JStr ''expense'', d_amount_cents = 0, d_description = Some ''Coffee'',
      d_category_id = None, d_bucket = JUndefined,
      d_date_iso = Some ''2024-03-10T09:30:00.000Z''\<rparr>"

definition sample_payload :: raw_payload where
  "sample_payload =
     \<lparr>p_schema_version = JStr ''1'', p_settings = None, p_categories = Array [],
      p_recurring = Array [], p_transactions = Array []\<rparr>"

definition sample_raw_transactions :: "raw_transaction raw_list" where
  "sample_raw_transactions =
     Array [Falsy,
            Object \<lparr>rt_id = None, rt_type = JStr ''income'', rt_amount_cents = JNum (25 / 2),
                    rt_description = JNull, rt_category_id = Some [], rt_bucket = JStr ''Fun'',
                    rt_date_iso = JUndefined\<rparr>,
            Primitive,
            Object \<lparr>rt_id = Some ''a1'', rt_type = JUndefined, rt_amount_cents = JNum (- 3),
                    rt_description = JStr ''Refund'', rt_category_id = None,
                    rt_bucket = JStr ''Leisure'', rt_date_iso = JStr ''2024-03-01T08:00:00.000Z''\<rparr>]"

text \<open>The world after a draft with amount zero has been added to an empty store.\<close>

definition zero_world :: world where
  "zero_world = snd (addTransaction utc_platform sample_draft (initial_world empty_storage))"




text \<open>
  A store that holds the transactions \<open>A\<close> and \<open>B\<close>, and a payload that holds another
  \<open>B\<close> and \<open>C\<close>.
\<close>

definition tx_A :: transaction where
  "tx_A = \<lparr>t_id = ''A'', t_type = Expense, amount_cents = 500, t_description = ''Bus'',
           t_category_id = None, t_bucket = None, date_iso = ''2024-03-02T08:00:00.000Z''\<rparr>"

definition tx_B :: transaction where
  "tx_B = \<lparr>t_id = ''B'', t_type = Expense, amount_cents = 700, t_description = ''Books'',
           t_category_id = None, t_bucket = Some Leisure,
           date_iso = ''2024-03-01T08:00:00.000Z''\<rparr>"


definition raw_C :: raw_transaction where
  "raw_C = \<lparr>rt_id = Some ''C'', rt_type = JStr ''income'', rt_amount_cents = JNum 100000,
            rt_description = JStr ''Salary'', rt_category_id = None, rt_bucket = JNull,
            rt_date_iso = JStr ''2024-03-03T08:00:00.000Z''\<rparr>"



text \<open>A payload with a record whose identifier contains the separator of the cursor.\<close>

definition raw_bar :: raw_transaction where
  "raw_bar = \<lparr>rt_id = Some ''a|b'', rt_type = JStr ''expense'', rt_amount_cents = JNum 300,
              rt_description = JStr ''Tea'', rt_category_id = None, rt_bucket = JNull,
              rt_date_iso = JStr ''2024-03-04T08:00:00.000Z''\<rparr>"

definition bar_payload :: raw_payload where
  "bar_payload =
     \<lparr>p_schema_version = JNum 1, p_settings = None, p_categories = Array [],
      p_recurring = Array [], p_transactions = Array [Object raw_bar, Object raw_C]\<rparr>"

definition bar_world :: world where
  "bar_world =
     snd (importData utc_platform (Some bar_payload) ''replace'' (initial_world empty_storage))"

text \<open>
  The budget as the specification words it: the exact value of
  \<open>income \<times> percentage / 100\<close>, rounded.
\<close>

definition exact_budget :: "int \<Rightarrow> rat \<Rightarrow> int" where
  "exact_budget income percentage = Math_round (of_int income * percentage / 100)"


text \<open>
  The scenario of the specification: after a reset, an income of 200000 cents and an
  expense of 50000 cents in the starter category \<^verbatim>\<open>Housing\<close> (bucket Necessities),
  both in March 2024, under the rule 50/30/20.
\<close>

definition salary_draft :: draft where
  "salary_draft =
     \<lparr>d_type = JStr ''income'', d_amount_cents = 200000, d_description = Some ''Salary'',
      d_category_id = None, d_bucket = JUndefined,
      d_date_iso = Some ''2024-03-01T09:00:00.000Z''\<rparr>"

definition rent_draft :: draft where
  "rent_draft =
     \<lparr>d_type = JStr ''expense'', d_amount_cents = 50000, d_description = Some ''Rent'',
      d_category_id = Some (createId utc_platform 0), d_bucket = JUndefined,
      d_date_iso = Some ''2024-03-02T09:00:00.000Z''\<rparr>"

definition scenario_world :: world where
  "scenario_world =
     run utc_platform [Reset, AddTransaction salary_draft, AddTransaction rent_draft]
       (initial_world empty_storage)"

text \<open>
  A store with the rule 29/51/20 and one income of 750 cents in March 2024, as an
  import leaves it.
\<close>

definition rule_29_payload :: raw_payload where
  "rule_29_payload =
     \<lparr>p_schema_version = JNum 1,
      p_settings = Some
        \<lparr>rs_currency = None, rs_locale = None,
         rs_rule = Some \<lparr>rl_necessities = Some 29, rl_leisure = Some 51, rl_savings = Some 20\<rparr>,
         rs_firstDayOfWeek = JUndefined, rs_showAdvancedCharts = JUndefined,
         rs_hapticFeedback = JUndefined, rs_schema_version = JNum 1\<rparr>,
      p_categories = Array [], p_recurring = Array [],
      p_transactions = Array
        [Object \<lparr>rt_id = Some ''i1'', rt_type = JStr ''income'', rt_amount_cents = JNum 750,
                 rt_description = JStr ''Tip'', rt_category_id = None, rt_bucket = JNull,
                 rt_date_iso = JStr ''2024-03-05T10:00:00.000Z''\<rparr>]\<rparr>"

definition rule_29_world :: world where
  "rule_29_world =
     snd (importData utc_platform (Some rule_29_payload) ''replace''
            (initial_world empty_storage))"


text \<open>A storage whose transactions were written oldest first.\<close>

definition ascending_storage :: local_storage where
  "ascending_storage =
     empty_storage\<lparr>BW_V1_TRANSACTIONS := Parsed (raw_of_list raw_of_transaction [tx_B, tx_A])\<rparr>"

section \<open>Properties\<close>

subsection \<open>The sort\<close>

lemma set_insert_by: "set (insert_by cmp x ys) = insert x (set ys)"
  by (induction ys) auto


lemma set_sort_by: "set (sort_by cmp xs) = set xs"
  by (induction xs) (auto simp: sort_by_def set_insert_by)


lemma sort_by_Cons: "sort_by cmp (x # xs) = insert_by cmp x (sort_by cmp xs)"
  by (simp add: sort_by_def)

lemma sort_by_Nil: "sort_by cmp [] = []"
  by (simp add: sort_by_def)




lemma compare_le_iff: "compareTransactionsDesc a b \<le> 0 \<longleftrightarrow> precedes a b"
  by (auto simp: compareTransactionsDesc_def localeCompare_def precedes_def)





lemma insert_by_sorted:
  "sorted_wrt precedes (x # ys) \<Longrightarrow> insert_by compareTransactionsDesc x ys = x # ys"
  by (cases ys) (auto simp: compare_le_iff)

lemma sort_by_sorted:
  "sorted_wrt precedes xs \<Longrightarrow> sort_by compareTransactionsDesc xs = xs"
proof (induction xs)
  case Nil
  then show ?case by (simp add: sort_by_Nil)
next
  case (Cons x xs)
  then have "sort_by compareTransactionsDesc xs = xs" by simp
  with Cons.prems show ?case
    using insert_by_sorted [of x xs] by (simp add: sort_by_Cons)
qed


subsection \<open>The normalizers on records of the store\<close>

lemma createId_not_empty: "createId p n \<noteq> []"
  by (simp add: createId_def)

lemma id_or_create_not_empty: "fst (id_or_create p n i) \<noteq> []"
  by (cases i) (auto simp: createId_not_empty)

lemma id_or_create_same: "s \<noteq> [] \<Longrightarrow> id_or_create p n (Some s) = (s, n)"
  by simp

lemma bucket_of_name: "bucket_of (JStr (bucket_name b)) = Some b"
  by (cases b) (simp_all add: bucket_of_def BUCKETS_def)

lemma bucket_of_js_of_bucket: "bucket_of (js_of_bucket b) = b"
proof (cases b)
  case None
  then show ?thesis by (simp add: js_of_bucket_def bucket_of_def BUCKETS_def)
next
  case (Some k)
  then show ?thesis by (simp add: js_of_bucket_def bucket_of_name)
qed

lemma trunc_of_int: "trunc (of_int k) = k"
  by (simp add: trunc_def)

lemma ident_or_null_idem: "ident_or_null (ident_or_null c) = ident_or_null c"
  by (cases c) auto

lemma objects_map_Object: "objects (map (\<lambda>x. Object (f x)) xs) = map f xs"
  by (induction xs) auto

lemma map_tick_fixed:
  "(\<And>x k. x \<in> set xs \<Longrightarrow> f k (g x) = (x, k)) \<Longrightarrow> map_tick f n (map g xs) = (xs, n)"
  by (induction xs arbitrary: n) auto

lemma map_tick_all:
  "\<forall>x k. P (fst (f k x)) \<Longrightarrow> map_tick f n xs = (ys, m) \<Longrightarrow> y \<in> set ys \<Longrightarrow> P y"
proof (induction xs arbitrary: n ys)
  case Nil
  then show ?case by simp
next
  case (Cons x xs)
  obtain z n1 where f: "f n x = (z, n1)" by (cases "f n x")
  obtain zs n2 where r0: "map_tick f n1 xs = (zs, n2)" by (cases "map_tick f n1 xs")
  from Cons.prems(2) f r0 have ys: "ys = z # zs" and "n2 = m" by simp_all
  with r0 have r: "map_tick f n1 xs = (zs, m)" by simp
  have "P z" using Cons.prems(1) f by (metis fst_conv)
  moreover have "y \<in> set zs \<Longrightarrow> P y"
    using Cons.IH [OF Cons.prems(1) r] by simp
  ultimately show ?case using Cons.prems(3) ys by auto
qed

lemma normalizeCategory_fixed:
  "c_id c \<noteq> [] \<Longrightarrow> normalizeCategory p n (raw_of_category c) = (c, n)"
  by (simp add: normalizeCategory_def raw_of_category_def bucket_of_name)

lemma normalizeCategory_id: "c_id (fst (normalizeCategory p n item)) \<noteq> []"
  using id_or_create_not_empty [of p n "rc_id item"]
  by (auto simp: normalizeCategory_def split: prod.splits)

lemma normalizeCategories_fixed:
  "\<forall>c\<in>set cs. c_id c \<noteq> [] \<Longrightarrow>
   normalizeCategories p n (raw_of_list raw_of_category cs) = (cs, n)"
  by (simp add: raw_of_list_def objects_map_Object map_tick_fixed normalizeCategory_fixed)

lemma normalizeCategories_ids:
  "normalizeCategories p n x = (cs, m) \<Longrightarrow> c \<in> set cs \<Longrightarrow> c_id c \<noteq> []"
proof (cases x)
  case NotArray
  then show "normalizeCategories p n x = (cs, m) \<Longrightarrow> c \<in> set cs \<Longrightarrow> c_id c \<noteq> []" by auto
next
  case (Array es)
  assume a: "normalizeCategories p n x = (cs, m)" and b: "c \<in> set cs"
  from a Array have "map_tick (normalizeCategory p) n (objects es) = (cs, m)" by simp
  from map_tick_all [where P = "\<lambda>c. c_id c \<noteq> []", OF _ this b]
  show "c_id c \<noteq> []" by (simp add: normalizeCategory_id)
qed

text \<open>A transaction as the normalizer leaves it.\<close>

lemma type_name_income: "type_name ty = ''income'' \<longleftrightarrow> ty = Income"
  by (cases ty) (simp_all add: type_name_def)

lemma normalizeTransaction_fixed:
  "t_id t \<noteq> [] \<Longrightarrow> 0 \<le> amount_cents t \<Longrightarrow> t_category_id t \<noteq> Some [] \<Longrightarrow>
   normalizeTransaction p n (raw_of_transaction t) = (t, n)"
proof -
  assume a: "t_id t \<noteq> []" "0 \<le> amount_cents t" "t_category_id t \<noteq> Some []"
  have c: "ident_or_null (t_category_id t) = t_category_id t"
    using a(3) by (cases "t_category_id t") auto
  have ty: "(if type_name (t_type t) = ''income'' then Income else Expense) = t_type t"
    by (cases "t_type t") (simp_all add: type_name_def)
  show ?thesis
    using a c ty
    by (simp add: normalizeTransaction_def raw_of_transaction_def bucket_of_js_of_bucket
        trunc_of_int)
qed

lemma finite_amount_nonneg: "0 \<le> finite_amount v"
  by (cases v) auto

lemma ident_or_null_not_empty: "ident_or_null c \<noteq> Some []"
  by (cases c) auto

lemma normalizeTransaction_normal:
  "t_id (fst (normalizeTransaction p n tx)) \<noteq> [] \<and>
   0 \<le> amount_cents (fst (normalizeTransaction p n tx)) \<and>
   t_category_id (fst (normalizeTransaction p n tx)) \<noteq> Some []"
  using id_or_create_not_empty [of p n "rt_id tx"]
  by (auto simp: normalizeTransaction_def finite_amount_nonneg ident_or_null_not_empty
      split: prod.splits)

lemma normalizeTransactions_normal:
  assumes "normalizeTransactions p n x = (ts, m)" and "t \<in> set ts"
  shows "t_id t \<noteq> [] \<and> 0 < amount_cents t \<and> t_category_id t \<noteq> Some []"
proof (cases x)
  case NotArray
  with assms show ?thesis by auto
next
  case (Array es)
  obtain us k where u: "map_tick (normalizeTransaction p) n (objects es) = (us, k)"
    by (cases "map_tick (normalizeTransaction p) n (objects es)")
  with assms Array have ts: "ts = filter (\<lambda>tx. amount_cents tx > 0) us" by simp
  with assms(2) have tu: "t \<in> set us" and pos: "0 < amount_cents t" by auto
  from map_tick_all [where P = "\<lambda>t. t_id t \<noteq> [] \<and> 0 \<le> amount_cents t \<and> t_category_id t \<noteq> Some []",
      OF _ u tu] pos
  show ?thesis by (simp add: normalizeTransaction_normal)
qed

lemma normalizeTransactions_fixed:
  assumes "\<forall>t\<in>set ts. t_id t \<noteq> [] \<and> 0 < amount_cents t \<and> t_category_id t \<noteq> Some []"
  shows "normalizeTransactions p n (raw_of_list raw_of_transaction ts) = (ts, n)"
proof -
  have "map_tick (normalizeTransaction p) n (map raw_of_transaction ts) = (ts, n)"
    using assms by (intro map_tick_fixed normalizeTransaction_fixed) auto
  moreover have "filter (\<lambda>tx. amount_cents tx > 0) ts = ts"
    using assms by (simp add: filter_id_conv)
  ultimately show ?thesis
    by (simp add: raw_of_list_def objects_map_Object)
qed

lemma normalizeRecurringItem_fixed:
  "r_id r \<noteq> [] \<Longrightarrow> 0 \<le> default_amount_cents r \<Longrightarrow> r_category_id r \<noteq> Some [] \<Longrightarrow>
   normalizeRecurringItem p n (raw_of_recurring r) = (r, n)"
proof -
  assume a: "r_id r \<noteq> []" "0 \<le> default_amount_cents r" "r_category_id r \<noteq> Some []"
  have c: "ident_or_null (r_category_id r) = r_category_id r"
    using a(3) by (cases "r_category_id r") auto
  show ?thesis
    using a c by (simp add: normalizeRecurringItem_def raw_of_recurring_def trunc_of_int)
qed

lemma normalizeRecurringItem_normal:
  "r_id (fst (normalizeRecurringItem p n item)) \<noteq> [] \<and>
   0 \<le> default_amount_cents (fst (normalizeRecurringItem p n item)) \<and>
   r_category_id (fst (normalizeRecurringItem p n item)) \<noteq> Some []"
  using id_or_create_not_empty [of p n "rr_id item"]
  by (auto simp: normalizeRecurringItem_def finite_amount_nonneg ident_or_null_not_empty
      split: prod.splits)

lemma normalizeRecurring_normal:
  assumes "normalizeRecurring p n x = (rs, m)" and "r \<in> set rs"
  shows "r_id r \<noteq> [] \<and> 0 \<le> default_amount_cents r \<and> r_category_id r \<noteq> Some []"
proof (cases x)
  case NotArray
  with assms show ?thesis by auto
next
  case (Array es)
  with assms have "map_tick (normalizeRecurringItem p) n (objects es) = (rs, m)" by simp
  from map_tick_all [where P = "\<lambda>r. r_id r \<noteq> [] \<and> 0 \<le> default_amount_cents r \<and> r_category_id r \<noteq> Some []",
      OF _ this assms(2)]
  show ?thesis by (simp add: normalizeRecurringItem_normal)
qed

lemma normalizeRecurring_fixed:
  assumes "\<forall>r\<in>set rs. r_id r \<noteq> [] \<and> 0 \<le> default_amount_cents r \<and> r_category_id r \<noteq> Some []"
  shows "normalizeRecurring p n (raw_of_list raw_of_recurring rs) = (rs, n)"
proof -
  have "map_tick (normalizeRecurringItem p) n (map raw_of_recurring rs) = (rs, n)"
    using assms by (intro map_tick_fixed normalizeRecurringItem_fixed) auto
  then show ?thesis
    by (simp add: raw_of_list_def objects_map_Object)
qed

lemma normalizeSettings_fixed:
  "normalizeSettings (Some (raw_of_settings (normalizeSettings raw))) = normalizeSettings raw"
  by (simp add: normalizeSettings_def raw_of_settings_def Let_def)

subsection \<open>Claim C9: the normalizers are idempotent\<close>

text \<open>
  C9. Each normalizer, applied to its own output, returns that output: the settings
  are returned as they are, and each of the three collections is returned as it is,
  with no new identifier or timestamp drawn from the platform (the counter does not
  move).
\<close>

theorem normalizers_idempotent:
  "normalizeSettings (Some (raw_of_settings (normalizeSettings raw))) = normalizeSettings raw \<and>
   normalizeCategories p k (raw_of_list raw_of_category (fst (normalizeCategories p n cs)))
     = (fst (normalizeCategories p n cs), k) \<and>
   normalizeTransactions p k (raw_of_list raw_of_transaction (fst (normalizeTransactions p n ts)))
     = (fst (normalizeTransactions p n ts), k) \<and>
   normalizeRecurring p k (raw_of_list raw_of_recurring (fst (normalizeRecurring p n rs)))
     = (fst (normalizeRecurring p n rs), k)"
proof (intro conjI)
  show "normalizeSettings (Some (raw_of_settings (normalizeSettings raw))) = normalizeSettings raw"
    by (rule normalizeSettings_fixed)
next
  obtain xs m where r: "normalizeCategories p n cs = (xs, m)"
    by (cases "normalizeCategories p n cs")
  then have "\<forall>c\<in>set xs. c_id c \<noteq> []"
    using normalizeCategories_ids by blast
  then show "normalizeCategories p k (raw_of_list raw_of_category (fst (normalizeCategories p n cs)))
     = (fst (normalizeCategories p n cs), k)"
    using r by (simp add: normalizeCategories_fixed)
next
  obtain xs m where r: "normalizeTransactions p n ts = (xs, m)"
    by (cases "normalizeTransactions p n ts")
  then have "\<forall>t\<in>set xs. t_id t \<noteq> [] \<and> 0 < amount_cents t \<and> t_category_id t \<noteq> Some []"
    using normalizeTransactions_normal by blast
  then show "normalizeTransactions p k
       (raw_of_list raw_of_transaction (fst (normalizeTransactions p n ts)))
     = (fst (normalizeTransactions p n ts), k)"
    using r by (simp add: normalizeTransactions_fixed)
next
  obtain xs m where r: "normalizeRecurring p n rs = (xs, m)"
    by (cases "normalizeRecurring p n rs")
  then have "\<forall>r\<in>set xs. r_id r \<noteq> [] \<and> 0 \<le> default_amount_cents r \<and> r_category_id r \<noteq> Some []"
    using normalizeRecurring_normal by blast
  then show "normalizeRecurring p k (raw_of_list raw_of_recurring (fst (normalizeRecurring p n rs)))
     = (fst (normalizeRecurring p n rs), k)"
    using r by (simp add: normalizeRecurring_fixed)
qed

theorem normalizers_idempotent_witness:
  "fst (normalizeTransactions utc_platform 3 sample_raw_transactions) =
     [\<lparr>t_id = ''luzzz-k3x9qa'', t_type = Income, amount_cents = 12, t_description = [],
       t_category_id = None, t_bucket = None, date_iso = ''2024-03-15T12:00:00.000Z''\<rparr>] \<and>
   normalizeTransactions utc_platform 9
     (raw_of_list raw_of_transaction
        (fst (normalizeTransactions utc_platform 3 sample_raw_transactions)))
     = (fst (normalizeTransactions utc_platform 3 sample_raw_transactions), 9)"
proof
  show "fst (normalizeTransactions utc_platform 3 sample_raw_transactions) =
     [\<lparr>t_id = ''luzzz-k3x9qa'', t_type = Income, amount_cents = 12, t_description = [],
       t_category_id = None, t_bucket = None, date_iso = ''2024-03-15T12:00:00.000Z''\<rparr>]"
    by code_simp
  show "normalizeTransactions utc_platform 9
     (raw_of_list raw_of_transaction
        (fst (normalizeTransactions utc_platform 3 sample_raw_transactions)))
     = (fst (normalizeTransactions utc_platform 3 sample_raw_transactions), 9)"
    using normalizers_idempotent [of None utc_platform 9 3 NotArray sample_raw_transactions NotArray]
    by simp
qed

subsection \<open>Claim C2: an import with the wrong schema version\<close>

text \<open>
  C2. When the payload is missing, or its \<^verbatim>\<open>schema_version\<close> is absent or is not the
  current storage version, \<^verbatim>\<open>importData\<close> (with any strategy) raises the error
  \<^verbatim>\<open>SCHEMA_MISMATCH\<close> and the world is the one before the call: the same
  settings and collections, the same content of the storage, and no notification
  added.
\<close>

theorem importData_schema_mismatch:
  assumes "payload = None \<or>
           (\<exists>pl. payload = Some pl \<and> p_schema_version pl \<noteq> JNum (of_int STORAGE_VERSION))"
  shows "importData p payload strategy w = (Some SCHEMA_MISMATCH, w)"
  using assms by (auto simp: importData_def)

theorem importData_schema_mismatch_witness:
  "p_schema_version sample_payload \<noteq> JNum (of_int STORAGE_VERSION) \<and>
   importData utc_platform (Some sample_payload) ''merge'' (initial_world empty_storage)
     = (Some SCHEMA_MISMATCH, initial_world empty_storage)"
proof -
  have v: "p_schema_version sample_payload \<noteq> JNum (of_int STORAGE_VERSION)"
    by (simp add: sample_payload_def)
  then show ?thesis
    using importData_schema_mismatch
      [of "Some sample_payload" utc_platform "''merge''" "initial_world empty_storage"]
    by simp
qed

subsection \<open>The store under persist and notify\<close>

lemma store_persist: "store (persist w) = store w"
  by (simp add: persist_def)

lemma store_notify: "store (notify c w) = store w"
  by (simp add: notify_def)

lemma max_trunc_below_one: "q < 1 \<Longrightarrow> max 0 (trunc q) = 0"
proof -
  assume q: "q < 1"
  show ?thesis
  proof (cases "0 \<le> q")
    case True
    with q have "\<lfloor>q\<rfloor> = 0" by (simp add: floor_eq_iff)
    with True show ?thesis by (simp add: trunc_def)
  next
    case False
    then have "\<lceil>q\<rceil> \<le> 0" by (simp add: ceiling_le_iff)
    with False show ?thesis by (simp add: trunc_def)
  qed
qed

lemma transactions_addTransaction:
  "transactions (store (snd (addTransaction p d w))) =
     sort_by compareTransactionsDesc (transactions (store w) @ [fst (addTransaction p d w)])"
  by (simp add: addTransaction_def store_persist store_notify split: prod.splits)

lemma amount_addTransaction:
  "amount_cents (fst (addTransaction p d w)) = max 0 (trunc (d_amount_cents d))"
  by (simp add: addTransaction_def buildTransaction_def Let_def split: prod.splits)

lemma update_each_ids:
  "map t_id (fst (update_each p cats i u target n txs)) = map t_id txs"
proof (induction txs arbitrary: target n)
  case Nil
  then show ?case by simp
next
  case (Cons tx txs)
  have m: "t_id (fst (merge_updates p cats u n tx)) = t_id tx"
    by (simp add: merge_updates_def Let_def split: prod.splits)
  show ?case
  proof (cases "t_id tx = i")
    case True
    obtain merged n1 where mu: "merge_updates p cats u n tx = (merged, n1)"
      by (cases "merge_updates p cats u n tx")
    obtain txs' target' n' where r: "update_each p cats i u (Some merged) n1 txs = (txs', target', n')"
      by (cases "update_each p cats i u (Some merged) n1 txs")
    have "map t_id txs' = map t_id txs"
      using Cons.IH [of "Some merged" n1] r by simp
    with True mu r m show ?thesis by simp
  next
    case False
    obtain txs' target' n' where r: "update_each p cats i u target n txs = (txs', target', n')"
      by (cases "update_each p cats i u target n txs")
    have "map t_id txs' = map t_id txs"
      using Cons.IH [of target n] r by simp
    with False r show ?thesis by simp
  qed
qed

lemma update_each_amount:
  "u_amount_cents u = Some a \<Longrightarrow> t \<in> set (fst (update_each p cats i u target n txs)) \<Longrightarrow>
   t_id t = i \<Longrightarrow> amount_cents t = max 0 (trunc a)"
proof (induction txs arbitrary: target n)
  case Nil
  then show ?case by simp
next
  case (Cons tx txs)
  have m: "amount_cents (fst (merge_updates p cats u k tx)) = max 0 (trunc a)" for k
    using Cons.prems(1) by (simp add: merge_updates_def Let_def split: prod.splits)
  have i: "t_id (fst (merge_updates p cats u k tx)) = t_id tx" for k
    by (simp add: merge_updates_def Let_def split: prod.splits)
  show ?case
  proof (cases "t_id tx = i")
    case True
    obtain merged n1 where mu: "merge_updates p cats u n tx = (merged, n1)"
      by (cases "merge_updates p cats u n tx")
    obtain txs' target' n' where r: "update_each p cats i u (Some merged) n1 txs = (txs', target', n')"
      by (cases "update_each p cats i u (Some merged) n1 txs")
    from Cons.prems(2) True mu r have "t = merged \<or> t \<in> set txs'" by simp
    then show ?thesis
    proof
      assume "t = merged"
      with m [of n] mu show ?thesis by simp
    next
      assume "t \<in> set txs'"
      with r have "t \<in> set (fst (update_each p cats i u (Some merged) n1 txs))" by simp
      from Cons.IH [OF Cons.prems(1) this Cons.prems(3)] show ?thesis .
    qed
  next
    case False
    obtain txs' target' n' where r: "update_each p cats i u target n txs = (txs', target', n')"
      by (cases "update_each p cats i u target n txs")
    from Cons.prems(2) False r have "t = tx \<or> t \<in> set txs'" by simp
    with False Cons.prems(3) have "t \<in> set txs'" by auto
    with r have "t \<in> set (fst (update_each p cats i u target n txs))" by simp
    from Cons.IH [OF Cons.prems(1) this Cons.prems(3)] show ?thesis .
  qed
qed

lemma transactions_updateTransaction:
  "transactions (store (snd (updateTransaction p i u w))) =
     sort_by compareTransactionsDesc
       (fst (update_each p (categories (store w)) i u None (tick w) (transactions (store w))))"
  by (simp add: updateTransaction_def store_persist store_notify split: prod.splits)


subsection \<open>Claim C1: amounts in the collection\<close>

text \<open>
  C1 says that no operation leaves a transaction with \<^verbatim>\<open>amount_cents\<close> zero in the
  collection. The store does otherwise: \<^verbatim>\<open>addTransaction\<close> with a draft whose amount
  is below one cent stores the record it builds, with amount \<open>0\<close>; and
  \<^verbatim>\<open>updateTransaction\<close> with such an amount leaves the updated record in the
  collection with amount \<open>0\<close>. Only \<^verbatim>\<open>normalizeTransactions\<close> drops such records.
\<close>

theorem store_admits_zero_amount:
  "(d_amount_cents d < 1 \<longrightarrow>
      amount_cents (fst (addTransaction p d w)) = 0 \<and>
      fst (addTransaction p d w) \<in> set (transactions (store (snd (addTransaction p d w))))) \<and>
   (tx \<in> set (transactions (store w)) \<and> u_amount_cents u = Some a \<and> a < 1 \<longrightarrow>
      (\<exists>tx'. tx' \<in> set (transactions (store (snd (updateTransaction p (t_id tx) u w)))) \<and>
             t_id tx' = t_id tx \<and> amount_cents tx' = 0))"
proof (intro conjI impI)
  assume "d_amount_cents d < 1"
  then show "amount_cents (fst (addTransaction p d w)) = 0"
    by (simp add: amount_addTransaction max_trunc_below_one)
next
  show "fst (addTransaction p d w) \<in> set (transactions (store (snd (addTransaction p d w))))"
    by (simp add: transactions_addTransaction set_sort_by)
next
  assume a: "tx \<in> set (transactions (store w)) \<and> u_amount_cents u = Some a \<and> a < 1"
  let ?new = "fst (update_each p (categories (store w)) (t_id tx) u None (tick w)
                    (transactions (store w)))"
  from a have "t_id tx \<in> set (map t_id (transactions (store w)))" by auto
  then have "t_id tx \<in> set (map t_id ?new)" by (simp only: update_each_ids)
  then obtain tx' where t: "tx' \<in> set ?new" "t_id tx' = t_id tx" by auto
  with a have "amount_cents tx' = max 0 (trunc a)"
    using update_each_amount by blast
  with a have "amount_cents tx' = 0" by (simp add: max_trunc_below_one)
  with t show "\<exists>tx'. tx' \<in> set (transactions (store (snd (updateTransaction p (t_id tx) u w)))) \<and>
             t_id tx' = t_id tx \<and> amount_cents tx' = 0"
    by (auto simp: transactions_updateTransaction set_sort_by)
qed

lemma zero_world_transactions:
  "transactions (store zero_world) =
     [\<lparr>t_id = ''luzzz-k3x9qa'', t_type = Expense, amount_cents = 0, t_description = ''Coffee'',
       t_category_id = None, t_bucket = None, date_iso = ''2024-03-10T09:30:00.000Z''\<rparr>]"
  by code_simp

theorem store_admits_zero_amount_witness:
  "d_amount_cents sample_draft < 1 \<and>
   amount_cents (fst (addTransaction utc_platform sample_draft (initial_world empty_storage))) = 0 \<and>
   transactions (store zero_world) =
     [\<lparr>t_id = ''luzzz-k3x9qa'', t_type = Expense, amount_cents = 0, t_description = ''Coffee'',
       t_category_id = None, t_bucket = None, date_iso = ''2024-03-10T09:30:00.000Z''\<rparr>]"
proof -
  have h: "d_amount_cents sample_draft < 1" by (simp add: sample_draft_def)
  with store_admits_zero_amount
    [where d = sample_draft and p = utc_platform and w = "initial_world empty_storage"]
  have "amount_cents (fst (addTransaction utc_platform sample_draft (initial_world empty_storage))) = 0"
    by blast
  with h zero_world_transactions show ?thesis by simp
qed

subsection \<open>Claim C8: export followed by a replacing import\<close>

text \<open>
  C8 says that importing what \<^verbatim>\<open>exportData\<close> returns, with the strategy
  \<^verbatim>\<open>replace\<close>, leaves the state as it was. In the world reached by adding a draft
  with amount zero to the empty store, the collection holds one transaction; the
  import of the export succeeds and leaves the collection empty.
\<close>

theorem zero_amount_lost_in_round_trip:
  "transactions (store zero_world) \<noteq> [] \<and>
   fst (importData utc_platform (Some (exportData zero_world)) ''replace'' zero_world) = None \<and>
   transactions (store (snd (importData utc_platform (Some (exportData zero_world)) ''replace''
       zero_world))) = []"
  by code_simp

subsection \<open>Deduplication\<close>








subsection \<open>The store after an import\<close>

lemma importData_accepted:
  assumes "p_schema_version pl = JNum (of_int STORAGE_VERSION)"
    and "normalizeCategories p (tick w) (p_categories pl) = (i_categories, n1)"
    and "normalizeRecurring p n1 (p_recurring pl) = (i_recurring, n2)"
    and "normalizeTransactions p n2 (p_transactions pl) = (i_transactions, n3)"
  shows "fst (importData p (Some pl) strategy w) = None"
    and "store (snd (importData p (Some pl) strategy w)) =
      (if strategy = ''merge''
       then (store w)
         \<lparr>settings := normalizeSettings (p_settings pl),
          categories := categories (store w) @
             filter (\<lambda>cat. c_id cat \<notin> set (map c_id (categories (store w)))) i_categories,
          transactions := sort_by compareTransactionsDesc
             (dedupeById t_id (transactions (store w) @ i_transactions)),
          recurring := dedupeById r_id (recurring (store w) @ i_recurring)\<rparr>
       else (store w)
         \<lparr>settings := normalizeSettings (p_settings pl),
          categories := i_categories,
          transactions := sort_by compareTransactionsDesc i_transactions,
          recurring := i_recurring\<rparr>)"
  using assms by (simp_all add: importData_def Let_def store_persist store_notify)

subsection \<open>Claim C3: import with the strategy merge\<close>




subsection \<open>Every operation keeps the order\<close>








subsection \<open>Claim C7: the order of the collection\<close>





subsection \<open>Cursors\<close>











subsection \<open>Claim C4: reading the whole feed\<close>


lemma bar_world_transactions:
  "transactions (store bar_world) =
     [\<lparr>t_id = ''a|b'', t_type = Expense, amount_cents = 300, t_description = ''Tea'',
       t_category_id = None, t_bucket = None, date_iso = ''2024-03-04T08:00:00.000Z''\<rparr>,
      \<lparr>t_id = ''C'', t_type = Income, amount_cents = 100000, t_description = ''Salary'',
       t_category_id = None, t_bucket = None, date_iso = ''2024-03-03T08:00:00.000Z''\<rparr>]"
  by code_simp




subsection \<open>Claim C10: the page that ends the collection exactly\<close>




subsection \<open>Monthly totals\<close>

lemma double_zero: "double 0 = 0"
  by (simp add: double_def)

lemma Math_round_zero: "Math_round 0 = 0"
  by code_simp

lemma budget_of_no_income: "budget_of 0 percentage = 0"
  by (simp add: budget_of_def double_zero Math_round_zero)

lemma budget_of_exact:
  assumes a: "double (percentage / 100) = percentage / 100"
    and b: "double (of_int income * percentage / 100) = of_int income * percentage / 100"
  shows "budget_of income percentage = exact_budget income percentage"
proof -
  have "rat_of_int income * double (percentage / 100) = rat_of_int income * percentage / 100"
    by (simp only: a times_divide_eq_right)
  then have "double (rat_of_int income * double (percentage / 100)) =
             rat_of_int income * percentage / 100"
    using b by (simp only:)
  then show ?thesis
    by (simp only: budget_of_def exact_budget_def)
qed




subsection \<open>Claim C5: budgets and remainders\<close>

text \<open>
  C5, as the store has it. For each of the three rule buckets \<^verbatim>\<open>budget_cents\<close> is
  \<^verbatim>\<open>Math.round\<close> of the double-precision product of the income and the
  double-precision quotient of the percentage by 100; it is the rounded exact value
  \<open>income \<times> percentage / 100\<close> whenever the quotient and the product are exact. The
  budget of \<^verbatim>\<open>Uncategorized\<close> is 0. For every bucket \<^verbatim>\<open>remaining_cents\<close> is the
  budget less the spending when the budget is not zero, and the negated spending
  otherwise; with no income every budget is 0 and every remainder is the negated
  spending.

  The budget is not always the rounded exact value: with an income of 750 cents and
  29 percent the exact share is 217.5, which rounds to 218, while the double product
  is 217.49999999999997 and the budget is 217.
\<close>

theorem monthly_budgets:
  "budget_cents (buckets (getMonthlyTotals p year monthIndex w) (Some b)) =
     Math_round (double (of_int (income_cents (getMonthlyTotals p year monthIndex w)) *
                         double (rule_percentage (rule (settings (store w))) b / 100))) \<and>
   (double (rule_percentage (rule (settings (store w))) b / 100) =
      rule_percentage (rule (settings (store w))) b / 100 \<and>
    double (of_int (income_cents (getMonthlyTotals p year monthIndex w)) *
            rule_percentage (rule (settings (store w))) b / 100) =
      of_int (income_cents (getMonthlyTotals p year monthIndex w)) *
      rule_percentage (rule (settings (store w))) b / 100 \<longrightarrow>
    budget_cents (buckets (getMonthlyTotals p year monthIndex w) (Some b)) =
      exact_budget (income_cents (getMonthlyTotals p year monthIndex w))
        (rule_percentage (rule (settings (store w))) b)) \<and>
   budget_cents (buckets (getMonthlyTotals p year monthIndex w) None) = 0 \<and>
   remaining_cents (buckets (getMonthlyTotals p year monthIndex w) key) =
     (if budget_cents (buckets (getMonthlyTotals p year monthIndex w) key) \<noteq> 0
      then budget_cents (buckets (getMonthlyTotals p year monthIndex w) key) -
           spent_cents (buckets (getMonthlyTotals p year monthIndex w) key)
      else - spent_cents (buckets (getMonthlyTotals p year monthIndex w) key)) \<and>
   (income_cents (getMonthlyTotals p year monthIndex w) = 0 \<longrightarrow>
      budget_cents (buckets (getMonthlyTotals p year monthIndex w) key) = 0 \<and>
      remaining_cents (buckets (getMonthlyTotals p year monthIndex w) key) =
        - spent_cents (buckets (getMonthlyTotals p year monthIndex w) key))"
proof (intro conjI impI)
  show "budget_cents (buckets (getMonthlyTotals p year monthIndex w) (Some b)) =
     Math_round (double (of_int (income_cents (getMonthlyTotals p year monthIndex w)) *
                         double (rule_percentage (rule (settings (store w))) b / 100)))"
    by (simp add: getMonthlyTotals_def Let_def budget_of_def)
next
  assume "double (rule_percentage (rule (settings (store w))) b / 100) =
      rule_percentage (rule (settings (store w))) b / 100 \<and>
    double (of_int (income_cents (getMonthlyTotals p year monthIndex w)) *
            rule_percentage (rule (settings (store w))) b / 100) =
      of_int (income_cents (getMonthlyTotals p year monthIndex w)) *
      rule_percentage (rule (settings (store w))) b / 100"
  then have "budget_of (income_cents (getMonthlyTotals p year monthIndex w))
               (rule_percentage (rule (settings (store w))) b) =
             exact_budget (income_cents (getMonthlyTotals p year monthIndex w))
               (rule_percentage (rule (settings (store w))) b)"
    by (intro budget_of_exact) simp_all
  then show "budget_cents (buckets (getMonthlyTotals p year monthIndex w) (Some b)) =
      exact_budget (income_cents (getMonthlyTotals p year monthIndex w))
        (rule_percentage (rule (settings (store w))) b)"
    by (simp add: getMonthlyTotals_def Let_def)
next
  show "budget_cents (buckets (getMonthlyTotals p year monthIndex w) None) = 0"
    by (simp add: getMonthlyTotals_def Let_def)
next
  show "remaining_cents (buckets (getMonthlyTotals p year monthIndex w) key) =
     (if budget_cents (buckets (getMonthlyTotals p year monthIndex w) key) \<noteq> 0
      then budget_cents (buckets (getMonthlyTotals p year monthIndex w) key) -
           spent_cents (buckets (getMonthlyTotals p year monthIndex w) key)
      else - spent_cents (buckets (getMonthlyTotals p year monthIndex w) key))"
    by (simp add: getMonthlyTotals_def Let_def)
next
  assume z: "income_cents (getMonthlyTotals p year monthIndex w) = 0"
  then show b0: "budget_cents (buckets (getMonthlyTotals p year monthIndex w) key) = 0"
    by (cases key) (simp_all add: getMonthlyTotals_def Let_def budget_of_no_income)
  from z show "remaining_cents (buckets (getMonthlyTotals p year monthIndex w) key) =
        - spent_cents (buckets (getMonthlyTotals p year monthIndex w) key)"
    by (cases key) (simp_all add: getMonthlyTotals_def Let_def budget_of_no_income)
qed

lemma scenario_transactions:
  "transactions (store scenario_world) =
     [\<lparr>t_id = ''luzzzz-k3x9qa'', t_type = Expense, amount_cents = 50000, t_description = ''Rent'',
       t_category_id = Some ''lu-k3x9qa'', t_bucket = Some Necessities,
       date_iso = ''2024-03-02T09:00:00.000Z''\<rparr>,
      \<lparr>t_id = ''luzzz-k3x9qa'', t_type = Income, amount_cents = 200000, t_description = ''Salary'',
       t_category_id = None, t_bucket = None, date_iso = ''2024-03-01T09:00:00.000Z''\<rparr>]"
  by code_simp

lemma scenario_rule: "rule (settings (store scenario_world)) = DEFAULT_RULE"
  by code_simp

lemma scenario_months:
  "isSameMonth utc_platform ''2024-03-02T09:00:00.000Z'' 2024 2"
  "isSameMonth utc_platform ''2024-03-01T09:00:00.000Z'' 2024 2"
  "isSameMonth utc_platform ''2024-03-05T10:00:00.000Z'' 2024 2"
  by code_simp+

lemma scenario_budgets:
  "budget_of 200000 50 = 100000" "budget_of 200000 30 = 60000" "budget_of 200000 20 = 40000"
  by code_simp+

lemma scenario_totals:
  "income_cents (getMonthlyTotals utc_platform 2024 2 scenario_world) = 200000 \<and>
   buckets (getMonthlyTotals utc_platform 2024 2 scenario_world) (Some Necessities) =
     \<lparr>spent_cents = 50000, budget_cents = 100000, remaining_cents = 50000\<rparr> \<and>
   buckets (getMonthlyTotals utc_platform 2024 2 scenario_world) (Some Leisure) =
     \<lparr>spent_cents = 0, budget_cents = 60000, remaining_cents = 60000\<rparr>"
  by (simp add: getMonthlyTotals_def Let_def scenario_transactions scenario_rule scenario_months
      scenario_budgets rule_percentage_def DEFAULT_RULE_def)

theorem monthly_budgets_witness:
  "income_cents (getMonthlyTotals utc_platform 2024 2 scenario_world) = 200000 \<and>
   buckets (getMonthlyTotals utc_platform 2024 2 scenario_world) (Some Necessities) =
     \<lparr>spent_cents = 50000, budget_cents = 100000, remaining_cents = 50000\<rparr> \<and>
   buckets (getMonthlyTotals utc_platform 2024 2 scenario_world) (Some Leisure) =
     \<lparr>spent_cents = 0, budget_cents = 60000, remaining_cents = 60000\<rparr> \<and>
   budget_cents (buckets (getMonthlyTotals utc_platform 2024 2 scenario_world) (Some Necessities)) =
     exact_budget 200000 50 \<and>
   income_cents (getMonthlyTotals utc_platform 2024 2 (initial_world empty_storage)) = 0 \<and>
   budget_cents (buckets (getMonthlyTotals utc_platform 2024 2 (initial_world empty_storage))
     (Some Savings)) = 0"
proof -
  let ?T = "getMonthlyTotals utc_platform 2024 2 scenario_world"
  let ?pct = "rule_percentage (rule (settings (store scenario_world))) Necessities"
  have i: "income_cents ?T = 200000"
    using scenario_totals by simp
  have r: "?pct = 50"
    by (simp add: scenario_rule rule_percentage_def DEFAULT_RULE_def)
  have h1: "double (?pct / 100) = ?pct / 100"
    unfolding r by code_simp
  have h2: "double (of_int (income_cents ?T) * ?pct / 100) = of_int (income_cents ?T) * ?pct / 100"
    unfolding i r by code_simp
  from monthly_budgets [of utc_platform 2024 2 scenario_world Necessities None] h1 h2
  have "budget_cents (buckets ?T (Some Necessities)) = exact_budget (income_cents ?T) ?pct"
    by blast
  then have e: "budget_cents (buckets ?T (Some Necessities)) = exact_budget 200000 50"
    by (simp only: i r)
  have z: "income_cents (getMonthlyTotals utc_platform 2024 2 (initial_world empty_storage)) = 0"
    by (simp add: getMonthlyTotals_def Let_def initial_world_def initial_state_def)
  with monthly_budgets [of utc_platform 2024 2 "initial_world empty_storage" Savings "Some Savings"]
  have b: "budget_cents (buckets (getMonthlyTotals utc_platform 2024 2 (initial_world empty_storage))
     (Some Savings)) = 0"
    by blast
  from scenario_totals e z b show ?thesis by blast
qed

lemma rule_29_transactions:
  "transactions (store rule_29_world) =
     [\<lparr>t_id = ''i1'', t_type = Income, amount_cents = 750, t_description = ''Tip'',
       t_category_id = None, t_bucket = None, date_iso = ''2024-03-05T10:00:00.000Z''\<rparr>]"
  by code_simp

lemma rule_29_rule:
  "rule (settings (store rule_29_world)) = \<lparr>necessities = 29, leisure = 51, savings = 20\<rparr>"
  by code_simp

lemma budget_of_750_29: "budget_of 750 29 = 217"
  by code_simp

theorem budget_below_rounded_share:
  "income_cents (getMonthlyTotals utc_platform 2024 2 rule_29_world) = 750 \<and>
   rule_percentage (rule (settings (store rule_29_world))) Necessities = 29 \<and>
   budget_cents (buckets (getMonthlyTotals utc_platform 2024 2 rule_29_world) (Some Necessities))
     = 217 \<and>
   exact_budget 750 29 = 218"
proof -
  have "exact_budget 750 29 = 218" by code_simp
  then show ?thesis
    by (simp add: getMonthlyTotals_def Let_def rule_29_transactions rule_29_rule scenario_months
        budget_of_750_29 rule_percentage_def)
qed

subsection \<open>Claim C6: the month of a transaction\<close>






subsection \<open>The load at start-up, and the round trip on accepted states\<close>

text \<open>
  The load at start-up normalizes the stored transactions and keeps their order; it
  does not sort them as \<^verbatim>\<open>importData\<close> does.
\<close>

lemma load_keeps_stored_order:
  "fst (init utc_platform (initial_world ascending_storage)) = None \<and>
   transactions (store (snd (init utc_platform (initial_world ascending_storage)))) = [tx_B, tx_A] \<and>
   \<not> precedes tx_B tx_A"
  by code_simp

text \<open>
  On a state that the normalizers accept and whose transactions are in order, the
  export followed by a replacing import gives the state back.
\<close>

lemma normalizeSettings_accepts:
  "schema_version s = STORAGE_VERSION \<Longrightarrow> firstDayOfWeek s = 0 \<or> firstDayOfWeek s = 1 \<Longrightarrow>
   normalizeSettings (Some (raw_of_settings s)) = s"
  by (auto simp: normalizeSettings_def raw_of_settings_def Let_def)

lemma round_trip_on_normal_state:
  assumes "schema_version (settings (store w)) = STORAGE_VERSION"
    and "firstDayOfWeek (settings (store w)) = 0 \<or> firstDayOfWeek (settings (store w)) = 1"
    and "\<forall>c\<in>set (categories (store w)). c_id c \<noteq> []"
    and "\<forall>t\<in>set (transactions (store w)).
           t_id t \<noteq> [] \<and> 0 < amount_cents t \<and> t_category_id t \<noteq> Some []"
    and "sorted_wrt precedes (transactions (store w))"
    and "\<forall>r\<in>set (recurring (store w)).
           r_id r \<noteq> [] \<and> 0 \<le> default_amount_cents r \<and> r_category_id r \<noteq> Some []"
  shows "fst (importData p (Some (exportData w)) ''replace'' w) = None \<and>
         store (snd (importData p (Some (exportData w)) ''replace'' w)) = store w"
proof -
  have v: "p_schema_version (exportData w) = JNum (of_int STORAGE_VERSION)"
    by (simp add: exportData_def)
  have c: "normalizeCategories p (tick w) (p_categories (exportData w)) =
             (categories (store w), tick w)"
    using assms(3) by (simp add: exportData_def normalizeCategories_fixed)
  have r: "normalizeRecurring p (tick w) (p_recurring (exportData w)) =
             (recurring (store w), tick w)"
    using assms(6) by (simp add: exportData_def normalizeRecurring_fixed)
  have t: "normalizeTransactions p (tick w) (p_transactions (exportData w)) =
             (transactions (store w), tick w)"
    using assms(4) by (simp add: exportData_def normalizeTransactions_fixed)
  have s: "normalizeSettings (p_settings (exportData w)) = settings (store w)"
    using assms(1,2) by (simp add: exportData_def normalizeSettings_accepts)
  from importData_accepted [OF v c r t, of "''replace''"] s assms(5)
  show ?thesis by (simp add: sort_by_sorted)
qed

end
